theory Spec2Isabelle
  imports Complex_Main "HOL-Library.Multiset"
begin

section \<open>types/index.ts: tasks\<close>

text \<open>
  \<^verbatim>\<open>TaskStatus\<close> is a union of five string literals. The upload hooks store the
  status of the upload response through an \<^verbatim>\<open>as any\<close> cast, so at run time the field
  can also hold any other string, or \<^verbatim>\<open>undefined\<close>: the constructor \<open>unlisted\<close>.
\<close>

datatype TaskStatus =
  pending | processing | completed | failed | cancelled | unlisted "string option"

datatype ProcessingStage =
  queued | audio_loading | feature_extraction | pitch_detection | midi_generation | finalization

text \<open>
  The interface \<^verbatim>\<open>Task\<close>. An optional property is an \<open>option\<close>. The numbers of a task
  (\<^verbatim>\<open>id\<close>, \<^verbatim>\<open>progress\<close>, the sizes) are only stored and copied, never computed with; they
  are integers here. The field \<^verbatim>\<open>id\<close> is \<open>id_task\<close>.
\<close>

record Task =
  id_task :: int
  task_id :: string
  original_filename :: string
  status :: TaskStatus
  progress :: int
  processing_stage :: "ProcessingStage option"
  error_message :: "string option"
  file_size :: "int option"
  output_size :: "int option"
  created_at :: string
  started_at :: "string option"
  completed_at :: "string option"
  estimated_completion :: "string option"
  processing_time :: "int option"
  download_url :: "string option"

text \<open>
  \<^verbatim>\<open>Partial<Task>\<close>: each key is absent (\<open>None\<close>) or present with a value. For an optional
  property of \<^verbatim>\<open>Task\<close> a present key may hold \<^verbatim>\<open>undefined\<close> (\<open>Some None\<close>).
\<close>

record TaskPatch =
  id_task_p :: "int option"
  task_id_p :: "string option"
  original_filename_p :: "string option"
  status_p :: "TaskStatus option"
  progress_p :: "int option"
  processing_stage_p :: "ProcessingStage option option"
  error_message_p :: "string option option"
  file_size_p :: "int option option"
  output_size_p :: "int option option"
  created_at_p :: "string option"
  started_at_p :: "string option option"
  completed_at_p :: "string option option"
  estimated_completion_p :: "string option option"
  processing_time_p :: "int option option"
  download_url_p :: "string option option"

text \<open>One key of the object spread \<^verbatim>\<open>{ ...task, ...updates }\<close>: a present key overwrites.\<close>

definition spread_key :: "'a \<Rightarrow> 'a option \<Rightarrow> 'a" where
  "spread_key old new = (case new of None \<Rightarrow> old | Some v \<Rightarrow> v)"

definition spread :: "Task \<Rightarrow> TaskPatch \<Rightarrow> Task" where
  "spread task updates =
     \<lparr> id_task = spread_key (id_task task) (id_task_p updates),
       task_id = spread_key (task_id task) (task_id_p updates),
       original_filename = spread_key (original_filename task) (original_filename_p updates),
       status = spread_key (status task) (status_p updates),
       progress = spread_key (progress task) (progress_p updates),
       processing_stage = spread_key (processing_stage task) (processing_stage_p updates),
       error_message = spread_key (error_message task) (error_message_p updates),
       file_size = spread_key (file_size task) (file_size_p updates),
       output_size = spread_key (output_size task) (output_size_p updates),
       created_at = spread_key (created_at task) (created_at_p updates),
       started_at = spread_key (started_at task) (started_at_p updates),
       completed_at = spread_key (completed_at task) (completed_at_p updates),
       estimated_completion =
         spread_key (estimated_completion task) (estimated_completion_p updates),
       processing_time = spread_key (processing_time task) (processing_time_p updates),
       download_url = spread_key (download_url task) (download_url_p updates) \<rparr>"

text \<open>The object with no key, and the literal \<^verbatim>\<open>{ status: 'cancelled' }\<close> of the cancel hook.\<close>

definition no_updates :: TaskPatch where
  "no_updates =
     \<lparr> id_task_p = None, task_id_p = None, original_filename_p = None, status_p = None,
       progress_p = None, processing_stage_p = None, error_message_p = None,
       file_size_p = None, output_size_p = None, created_at_p = None, started_at_p = None,
       completed_at_p = None, estimated_completion_p = None, processing_time_p = None,
       download_url_p = None \<rparr>"

definition status_only :: "TaskStatus \<Rightarrow> TaskPatch" where
  "status_only s = no_updates \<lparr> status_p := Some s \<rparr>"

text \<open>
  A whole task passed where a \<^verbatim>\<open>Partial<Task>\<close> is expected (the single-task poll
  result): the required keys are present, an optional key is present when the task has it.
\<close>

definition task_as_updates :: "Task \<Rightarrow> TaskPatch" where
  "task_as_updates t =
     \<lparr> id_task_p = Some (id_task t), task_id_p = Some (task_id t),
       original_filename_p = Some (original_filename t), status_p = Some (status t),
       progress_p = Some (progress t),
       processing_stage_p = map_option Some (processing_stage t),
       error_message_p = map_option Some (error_message t),
       file_size_p = map_option Some (file_size t),
       output_size_p = map_option Some (output_size t),
       created_at_p = Some (created_at t),
       started_at_p = map_option Some (started_at t),
       completed_at_p = map_option Some (completed_at t),
       estimated_completion_p = map_option Some (estimated_completion t),
       processing_time_p = map_option Some (processing_time t),
       download_url_p = map_option Some (download_url t) \<rparr>"

text \<open>The test \<^verbatim>\<open>status === 'pending' || status === 'processing'\<close> of the hooks.\<close>

definition is_active :: "TaskStatus \<Rightarrow> bool" where
  "is_active s = (s = pending \<or> s = processing)"

definition is_terminal :: "TaskStatus \<Rightarrow> bool" where
  "is_terminal s = (s = completed \<or> s = failed \<or> s = cancelled)"

section \<open>store/useTaskStore.ts: the task registry\<close>

record TaskState =
  tasks :: "Task list"
  currentTask :: "Task option"
  isLoading :: bool
  error :: "string option"

definition initial_TaskState :: TaskState where
  "initial_TaskState = \<lparr> tasks = [], currentTask = None, isLoading = False, error = None \<rparr>"

definition setTasks :: "Task list \<Rightarrow> TaskState \<Rightarrow> TaskState" where
  "setTasks ts state = state \<lparr> tasks := ts \<rparr>"

definition addTask :: "Task \<Rightarrow> TaskState \<Rightarrow> TaskState" where
  "addTask task state = state \<lparr> tasks := task # tasks state \<rparr>"

definition updateTask :: "string \<Rightarrow> TaskPatch \<Rightarrow> TaskState \<Rightarrow> TaskState" where
  "updateTask taskId updates state =
     state \<lparr> tasks := map (\<lambda>task. if task_id task = taskId then spread task updates else task)
                         (tasks state),
             currentTask :=
               (case currentTask state of
                  None \<Rightarrow> None
                | Some c \<Rightarrow> if task_id c = taskId then Some (spread c updates) else Some c) \<rparr>"

definition setCurrentTask :: "Task option \<Rightarrow> TaskState \<Rightarrow> TaskState" where
  "setCurrentTask task state = state \<lparr> currentTask := task \<rparr>"

definition setLoading :: "bool \<Rightarrow> TaskState \<Rightarrow> TaskState" where
  "setLoading loading state = state \<lparr> isLoading := loading \<rparr>"

definition getTaskById :: "string \<Rightarrow> TaskState \<Rightarrow> Task option" where
  "getTaskById taskId state = find (\<lambda>task. task_id task = taskId) (tasks state)"

definition getActiveTasks :: "TaskState \<Rightarrow> Task list" where
  "getActiveTasks state = filter (\<lambda>task. is_active (status task)) (tasks state)"

section \<open>store/useUIStore.ts: notifications\<close>

datatype NotificationType = success | error_type | warning | info

datatype Theme = light | dark | system

text \<open>
  The argument of \<^verbatim>\<open>addNotification\<close> is a notification without \<^verbatim>\<open>id\<close> and
  \<^verbatim>\<open>timestamp\<close>; the stored notification extends it with both. The field \<^verbatim>\<open>type\<close> is
  \<open>type_notif\<close>, \<^verbatim>\<open>id\<close> is \<open>id_notif\<close>; durations and timestamps are milliseconds.
\<close>

record NotificationInput =
  type_notif :: NotificationType
  title :: string
  message :: "string option"
  duration :: "int option"

record Notification = NotificationInput +
  id_notif :: string
  timestamp :: int

record UIState =
  sidebarOpen :: bool
  notifications :: "Notification list"
  isUploading :: bool
  uploadProgress :: int
  taskDetailModalOpen :: bool
  selectedTaskId :: "string option"
  theme :: Theme

definition initial_UIState :: UIState where
  "initial_UIState =
     \<lparr> sidebarOpen = True, notifications = [], isUploading = False, uploadProgress = 0,
       taskDetailModalOpen = False, selectedTaskId = None, theme = system \<rparr>"

definition removeNotification :: "string \<Rightarrow> UIState \<Rightarrow> UIState" where
  "removeNotification i state =
     state \<lparr> notifications := filter (\<lambda>n. id_notif n \<noteq> i) (notifications state) \<rparr>"

definition clearNotifications :: "UIState \<Rightarrow> UIState" where
  "clearNotifications state = state \<lparr> notifications := [] \<rparr>"

definition setUploading :: "bool \<Rightarrow> UIState \<Rightarrow> UIState" where
  "setUploading uploading state = state \<lparr> isUploading := uploading \<rparr>"

definition setUploadProgress :: "int \<Rightarrow> UIState \<Rightarrow> UIState" where
  "setUploadProgress p state = state \<lparr> uploadProgress := p \<rparr>"

section \<open>The application state the hooks act on\<close>

text \<open>
  Both stores, the pending \<^verbatim>\<open>setTimeout\<close> callbacks (delay and the notification id the
  callback removes), and the query keys passed to \<^verbatim>\<open>invalidateQueries\<close> so far.
\<close>

record App =
  taskStore :: TaskState
  uiStore :: UIState
  timeouts :: "(int \<times> string) list"
  invalidated :: "string list list"

definition initial_App :: App where
  "initial_App =
     \<lparr> taskStore = initial_TaskState, uiStore = initial_UIState, timeouts = [],
       invalidated = [] \<rparr>"

text \<open>
  \<^verbatim>\<open>addNotification\<close>. The id (\<^verbatim>\<open>Math.random().toString(36).substring(2, 9)\<close>) and the
  timestamp (\<^verbatim>\<open>Date.now()\<close>) are inputs. The notification is appended; a removal is
  scheduled when the duration, 5000 by default, is positive.
\<close>

definition addNotification :: "string \<Rightarrow> int \<Rightarrow> NotificationInput \<Rightarrow> App \<Rightarrow> App" where
  "addNotification i now notification app =
     (let newNotification =
            \<lparr> type_notif = type_notif notification, title = title notification,
              message = message notification, duration = duration notification,
              id_notif = i, timestamp = now \<rparr>;
          app1 = app \<lparr> uiStore := (uiStore app)
                   \<lparr> notifications := notifications (uiStore app) @ [newNotification] \<rparr> \<rparr>;
          d = (case duration notification of None \<Rightarrow> 5000 | Some v \<Rightarrow> v)
      in if d > 0 then app1 \<lparr> timeouts := timeouts app1 @ [(d, i)] \<rparr> else app1)"

text \<open>The scheduled callback \<^verbatim>\<open>() => get().removeNotification(id)\<close>, when it fires.\<close>

definition timeout_fires :: "string \<Rightarrow> App \<Rightarrow> App" where
  "timeout_fires i app = app \<lparr> uiStore := removeNotification i (uiStore app) \<rparr>"

definition invalidateQueries :: "string list \<Rightarrow> App \<Rightarrow> App" where
  "invalidateQueries queryKey app = app \<lparr> invalidated := invalidated app @ [queryKey] \<rparr>"

text \<open>
  A rejected request: \<^verbatim>\<open>error.response?.data?.error?.message\<close> and \<^verbatim>\<open>error.message\<close>.
  \<^verbatim>\<open>a || b\<close> on strings yields \<open>b\<close> when \<open>a\<close> is undefined or empty.
\<close>

record RequestError =
  response_error_message :: "string option"
  request_error_message :: "string option"

definition or_else :: "string option \<Rightarrow> string option \<Rightarrow> string option" where
  "or_else a b = (case a of None \<Rightarrow> b | Some s \<Rightarrow> if s = [] then b else Some s)"

definition failure_message :: "RequestError \<Rightarrow> string option" where
  "failure_message e = or_else (response_error_message e) (request_error_message e)"

text \<open>How the promise of a \<^verbatim>\<open>mutationFn\<close> settles.\<close>

datatype 'a settled = Fulfilled 'a | Rejected RequestError

section \<open>hooks/useTasks.ts: polling and cancelling\<close>

text \<open>The result of a \<^verbatim>\<open>refetchInterval\<close> callback: a number of milliseconds or \<^verbatim>\<open>false\<close>.\<close>

datatype RefetchInterval = Every int | NoRefetch

text \<open>
  \<^verbatim>\<open>useTasksWithEffects\<close>: the argument is \<^verbatim>\<open>query.state.data?.data?.tasks\<close>, \<open>None\<close> while
  there is no snapshot (an array, also an empty one, is truthy).
\<close>

definition useTasksWithEffects_refetchInterval :: "Task list option \<Rightarrow> RefetchInterval" where
  "useTasksWithEffects_refetchInterval data =
     (case data of
        Some ts \<Rightarrow>
          (let hasActiveTasks = list_ex (\<lambda>task. is_active (status task)) ts
           in if hasActiveTasks then Every 2000 else NoRefetch)
      | None \<Rightarrow> NoRefetch)"

text \<open>\<^verbatim>\<open>useTaskWithEffects\<close>: the argument is \<^verbatim>\<open>query.state.data?.data\<close>, the polled task.\<close>

definition useTaskWithEffects_refetchInterval :: "Task option \<Rightarrow> RefetchInterval" where
  "useTaskWithEffects_refetchInterval data =
     (case data of
        Some t \<Rightarrow> if status t = processing \<or> status t = pending then Every 2000 else NoRefetch
      | None \<Rightarrow> NoRefetch)"

text \<open>
  The effect of \<^verbatim>\<open>useTaskWithEffects\<close> on new data: \<^verbatim>\<open>setCurrentTask(data)\<close>, then
  \<^verbatim>\<open>updateTask(taskId, data)\<close>.
\<close>

definition useTaskWithEffects_effect :: "string \<Rightarrow> Task option \<Rightarrow> TaskState \<Rightarrow> TaskState" where
  "useTaskWithEffects_effect taskId data state =
     (case data of
        None \<Rightarrow> state
      | Some d \<Rightarrow> updateTask taskId (task_as_updates d) (setCurrentTask (Some d) state))"

text \<open>
  \<^verbatim>\<open>useCancelTask\<close>. The options of the mutation have \<^verbatim>\<open>mutationFn\<close>, \<^verbatim>\<open>onSuccess\<close> and
  \<^verbatim>\<open>onError\<close>, and no \<^verbatim>\<open>onMutate\<close>: from the call of \<^verbatim>\<open>mutate\<close> until the request
  settles, no handler of the hook runs (\<open>useCancelTask_mutate\<close>).
\<close>

definition useCancelTask_mutate :: "string \<Rightarrow> App \<Rightarrow> App" where
  "useCancelTask_mutate taskId app = app"

definition useCancelTask_onSuccess :: "string \<Rightarrow> int \<Rightarrow> string \<Rightarrow> App \<Rightarrow> App" where
  "useCancelTask_onSuccess i now taskId app =
     (let app1 = app \<lparr> taskStore := updateTask taskId (status_only cancelled) (taskStore app) \<rparr>;
          app2 = invalidateQueries [''tasks'', ''detail'', taskId] app1;
          app3 = invalidateQueries [''tasks'', ''list''] app2
      in addNotification i now
           \<lparr> type_notif = success, title = ''Task cancelled'',
             message = Some (''Task '' @ taskId @ '' has been cancelled successfully.''),
             duration = None \<rparr> app3)"

definition useCancelTask_onError :: "string \<Rightarrow> int \<Rightarrow> RequestError \<Rightarrow> string \<Rightarrow> App \<Rightarrow> App" where
  "useCancelTask_onError i now e taskId app =
     addNotification i now
       \<lparr> type_notif = error_type, title = ''Failed to cancel task'',
         message = failure_message e, duration = None \<rparr> app"

definition useCancelTask_settled :: "string \<Rightarrow> int \<Rightarrow> string \<Rightarrow> unit settled \<Rightarrow> App \<Rightarrow> App" where
  "useCancelTask_settled i now taskId result app =
     (case result of
        Fulfilled _ \<Rightarrow> useCancelTask_onSuccess i now taskId app
      | Rejected e \<Rightarrow> useCancelTask_onError i now e taskId app)"

section \<open>hooks/useUpload.ts: creating a task\<close>

text \<open>The \<^verbatim>\<open>data\<close> of an \<^verbatim>\<open>UploadResponse\<close> of a single upload, and its \<^verbatim>\<open>message\<close>.\<close>

record UploadResponse =
  upload_task_id :: "string option"
  upload_status :: "string option"
  upload_original_filename :: "string option"
  upload_file_size :: "int option"
  upload_created_at :: "string option"
  upload_message :: string

text \<open>\<^verbatim>\<open>data.data.status as any\<close>: the string of the response becomes the task's status.\<close>

definition as_any :: "string option \<Rightarrow> TaskStatus" where
  "as_any s =
     (if s = Some ''pending'' then pending
      else if s = Some ''processing'' then processing
      else if s = Some ''completed'' then completed
      else if s = Some ''failed'' then failed
      else if s = Some ''cancelled'' then cancelled
      else unlisted s)"

text \<open>\<^verbatim>\<open>a || 'literal'\<close> on an optional string.\<close>

definition or_default :: "string option \<Rightarrow> string \<Rightarrow> string" where
  "or_default a b = (case a of None \<Rightarrow> b | Some s \<Rightarrow> if s = [] then b else s)"

definition useUploadFile_onMutate :: "string \<Rightarrow> int \<Rightarrow> App \<Rightarrow> App" where
  "useUploadFile_onMutate i now app =
     (let ui1 = setUploadProgress 0 (setUploading True (uiStore app))
      in addNotification i now
           \<lparr> type_notif = info, title = ''Upload started'',
             message = Some ''Your file is being uploaded...'', duration = None \<rparr>
           (app \<lparr> uiStore := ui1 \<rparr>))"

text \<open>
  \<open>nowISO\<close> is \<^verbatim>\<open>new Date().toISOString()\<close>. The object literal \<^verbatim>\<open>newTask\<close> has the keys
  \<^verbatim>\<open>id\<close>, \<^verbatim>\<open>task_id\<close>, \<^verbatim>\<open>original_filename\<close>, \<^verbatim>\<open>status\<close>, \<^verbatim>\<open>progress\<close>, \<^verbatim>\<open>file_size\<close> and
  \<^verbatim>\<open>created_at\<close>; \<open>tid\<close> is \<^verbatim>\<open>data.data.task_id\<close>, which the caller has tested.
\<close>

definition newTask :: "string \<Rightarrow> string \<Rightarrow> UploadResponse \<Rightarrow> Task" where
  "newTask nowISO tid data =
     \<lparr> id_task = 0,
       task_id = tid,
       original_filename = or_default (upload_original_filename data) ''Unknown'',
       status = as_any (upload_status data),
       progress = 0,
       processing_stage = None,
       error_message = None,
       file_size = upload_file_size data,
       output_size = None,
       created_at = or_default (upload_created_at data) nowISO,
       started_at = None, completed_at = None, estimated_completion = None,
       processing_time = None, download_url = None \<rparr>"

definition useUploadFile_onSuccess :: "string \<Rightarrow> int \<Rightarrow> string \<Rightarrow> UploadResponse \<Rightarrow> App \<Rightarrow> App" where
  "useUploadFile_onSuccess i now nowISO data app =
     (let app1 = (case upload_task_id data of
                    None \<Rightarrow> app
                  | Some tid \<Rightarrow>
                      if tid = [] then app
                      else app \<lparr> taskStore := addTask (newTask nowISO tid data) (taskStore app) \<rparr>);
          app2 = addNotification i now
                   \<lparr> type_notif = success, title = ''Upload successful'',
                     message = Some (upload_message data), duration = None \<rparr> app1
      in invalidateQueries [''tasks''] app2)"

definition useUploadFile_onError :: "string \<Rightarrow> int \<Rightarrow> RequestError \<Rightarrow> App \<Rightarrow> App" where
  "useUploadFile_onError i now e app =
     addNotification i now
       \<lparr> type_notif = error_type, title = ''Upload failed'',
         message = failure_message e, duration = None \<rparr> app"

definition useUploadFile_onSettled :: "App \<Rightarrow> App" where
  "useUploadFile_onSettled app =
     app \<lparr> uiStore := setUploadProgress 0 (setUploading False (uiStore app)) \<rparr>"

text \<open>
  The mutation: \<^verbatim>\<open>onMutate\<close> runs when \<^verbatim>\<open>mutate\<close> is called, before the request is sent;
  once the request settles, \<^verbatim>\<open>onSuccess\<close> or \<^verbatim>\<open>onError\<close> runs, then \<^verbatim>\<open>onSettled\<close>.
\<close>

definition useUploadFile_settled ::
    "string \<Rightarrow> int \<Rightarrow> string \<Rightarrow> UploadResponse settled \<Rightarrow> App \<Rightarrow> App" where
  "useUploadFile_settled i now nowISO result app =
     useUploadFile_onSettled
       (case result of
          Fulfilled data \<Rightarrow> useUploadFile_onSuccess i now nowISO data app
        | Rejected e \<Rightarrow> useUploadFile_onError i now e app)"

section \<open>hooks/useRecentUploads.ts: the merged view\<close>

text \<open>
  \<^verbatim>\<open>Array.prototype.sort\<close> with a comparator: a stable sort; \<open>x\<close> stays before \<open>y\<close> when
  the comparator gives \<open>0\<close> or less.
\<close>

fun insert_sorted :: "('a \<Rightarrow> 'a \<Rightarrow> int) \<Rightarrow> 'a \<Rightarrow> 'a list \<Rightarrow> 'a list" where
  "insert_sorted cmp x [] = [x]"
| "insert_sorted cmp x (y # ys) =
     (if cmp x y \<le> 0 then x # y # ys else y # insert_sorted cmp x ys)"

fun array_sort :: "('a \<Rightarrow> 'a \<Rightarrow> int) \<Rightarrow> 'a list \<Rightarrow> 'a list" where
  "array_sort cmp [] = []"
| "array_sort cmp (x # xs) = insert_sorted cmp x (array_sort cmp xs)"

text \<open>
  The comparator \<^verbatim>\<open>new Date(b.created_at).getTime() - new Date(a.created_at).getTime()\<close>.
  \<open>getTime\<close> stands for the date parser: milliseconds since the epoch, \<open>None\<close> for an
  invalid date (\<^verbatim>\<open>NaN\<close>). A comparator result of \<^verbatim>\<open>NaN\<close> counts as \<open>0\<close> in a sort.
\<close>

definition newest_first :: "(string \<Rightarrow> int option) \<Rightarrow> Task \<Rightarrow> Task \<Rightarrow> int" where
  "newest_first getTime a b =
     (case (getTime (created_at b), getTime (created_at a)) of
        (Some tb, Some ta) \<Rightarrow> tb - ta
      | _ \<Rightarrow> 0)"

text \<open>\<^verbatim>\<open>new Map(apiTasks.map(task => [task.task_id, task]))\<close>: a later entry replaces.\<close>

definition apiTaskMap :: "Task list \<Rightarrow> string \<Rightarrow> Task option" where
  "apiTaskMap apiTasks = map_of (rev (map (\<lambda>task. (task_id task, task)) apiTasks))"

definition has :: "('k \<Rightarrow> 'v option) \<Rightarrow> 'k \<Rightarrow> bool" where
  "has m k = (m k \<noteq> None)"

text \<open>\<open>data\<close> is \<^verbatim>\<open>data?.data?.tasks\<close>, the task list of the last snapshot if there is one.\<close>

definition mergedTasks :: "(string \<Rightarrow> int option) \<Rightarrow> Task list \<Rightarrow> Task list option \<Rightarrow> Task list" where
  "mergedTasks getTime localTasks data =
     (let apiTasks = (case data of None \<Rightarrow> [] | Some ts \<Rightarrow> ts);
          localOnlyTasks =
            filter (\<lambda>localTask. \<not> has (apiTaskMap apiTasks) (task_id localTask)) localTasks;
          allTasks = localOnlyTasks @ apiTasks
      in array_sort (newest_first getTime) allTasks)"

text \<open>The effect that recomputes the state \<^verbatim>\<open>activeTasks\<close> from the merged tasks.\<close>

definition activeTasks :: "Task list \<Rightarrow> string list" where
  "activeTasks merged = map task_id (filter (\<lambda>task. is_active (status task)) merged)"

definition useRecentUploads_refetchInterval :: "string list \<Rightarrow> RefetchInterval" where
  "useRecentUploads_refetchInterval active =
     (if length active > 0 then Every 2000 else NoRefetch)"

text \<open>
  The numbers of the filter are IEEE 754 doubles. A time value is an integer of
  magnitude below \<open>2 ^ 53\<close>, a double. The difference and the quotient are the exact
  results rounded to a double: \<open>fl\<close> stands for that rounding, which the language
  provides. \<open>binary64\<close> holds of the doubles \<open>m / 2 ^ k\<close> with \<open>\<bar>m\<bar> \<le> 2 ^ 53\<close> and
  \<open>k \<le> 1074\<close>, among them the integers up to \<open>2 ^ 53\<close>; \<open>rounding fl\<close> says of \<open>fl\<close>
  what rounding to nearest does on finite values: it is monotone and leaves these doubles
  as they are.
\<close>

definition binary64 :: "rat \<Rightarrow> bool" where
  "binary64 x = (\<exists>m k. \<bar>m\<bar> \<le> (2::int) ^ 53 \<and> k \<le> (1074::nat) \<and> x = of_int m / 2 ^ k)"

definition rounding :: "(rat \<Rightarrow> rat) \<Rightarrow> bool" where
  "rounding fl = ((\<forall>x y. x \<le> y \<longrightarrow> fl x \<le> fl y) \<and> (\<forall>x. binary64 x \<longrightarrow> fl x = x))"

text \<open>
  The filter of the last \<open>hours\<close> hours. \<open>now\<close> is \<^verbatim>\<open>new Date().getTime()\<close>, \<open>taskDate\<close> is
  \<^verbatim>\<open>new Date(task.created_at).getTime()\<close>, \<open>None\<close> for an invalid date: its time value is
  \<^verbatim>\<open>NaN\<close>, so is the quotient, and a comparison with \<^verbatim>\<open>NaN\<close> is false. \<open>hours\<close> is the
  value of a double.
\<close>

definition hoursDiff :: "(rat \<Rightarrow> rat) \<Rightarrow> int \<Rightarrow> int \<Rightarrow> rat" where
  "hoursDiff fl now taskDate = fl (fl (of_int now - of_int taskDate) / (1000 * 60 * 60))"

definition is_recent ::
    "(rat \<Rightarrow> rat) \<Rightarrow> (string \<Rightarrow> int option) \<Rightarrow> int \<Rightarrow> rat \<Rightarrow> Task \<Rightarrow> bool" where
  "is_recent fl getTime now hours task =
     (case getTime (created_at task) of
        None \<Rightarrow> False
      | Some taskDate \<Rightarrow> hoursDiff fl now taskDate \<le> hours)"

definition recentTasks ::
    "(rat \<Rightarrow> rat) \<Rightarrow> (string \<Rightarrow> int option) \<Rightarrow> int \<Rightarrow> rat \<Rightarrow> Task list \<Rightarrow> Task list" where
  "recentTasks fl getTime now hours merged = filter (is_recent fl getTime now hours) merged"

section \<open>Example data\<close>

text \<open>
  A task with the given id, status and creation date, as an upload stores it; a parser
  that knows three dates; a rejected request.
\<close>

definition example_task :: "string \<Rightarrow> TaskStatus \<Rightarrow> string \<Rightarrow> Task" where
  "example_task tid st created =
     \<lparr> id_task = 0, task_id = tid, original_filename = ''song.wav'', status = st,
       progress = 0, processing_stage = None, error_message = None, file_size = Some 1024,
       output_size = None, created_at = created, started_at = None, completed_at = None,
       estimated_completion = None, processing_time = None, download_url = None \<rparr>"

definition example_getTime :: "string \<Rightarrow> int option" where
  "example_getTime s =
     (if s = ''t10'' then Some 10 else if s = ''t8'' then Some 8
      else if s = ''t5'' then Some 5 else None)"

definition example_error :: RequestError where
  "example_error =
     \<lparr> response_error_message = None, request_error_message = Some ''Network Error'' \<rparr>"

definition example_app :: "Task list \<Rightarrow> App" where
  "example_app ts = initial_App \<lparr> taskStore := setTasks ts initial_TaskState \<rparr>"

definition example_upload :: UploadResponse where
  "example_upload =
     \<lparr> upload_task_id = Some ''A'', upload_status = Some ''processing'',
       upload_original_filename = Some ''song.wav'', upload_file_size = Some 1024,
       upload_created_at = Some ''t5'', upload_message = ''File uploaded'' \<rparr>"

definition example_notification :: "string \<Rightarrow> Notification" where
  "example_notification i =
     \<lparr> type_notif = info, title = ''Upload started'', message = None, duration = None,
       id_notif = i, timestamp = 0 \<rparr>"

section \<open>Auxiliary facts\<close>

lemma status_spread: "status (spread t u) = spread_key (status t) (status_p u)"
  by (simp add: spread_def)

lemma status_spread_status_only: "status (spread t (status_only s)) = s"
  by (simp add: spread_def status_only_def no_updates_def spread_key_def)

lemma tasks_updateTask:
  "tasks (updateTask taskId u state) =
     map (\<lambda>t. if task_id t = taskId then spread t u else t) (tasks state)"
  by (simp add: updateTask_def)

lemma taskStore_addNotification: "taskStore (addNotification i now n app) = taskStore app"
  by (simp add: addNotification_def Let_def)

lemma notifications_addNotification:
  "notifications (uiStore (addNotification i now n app)) =
     notifications (uiStore app) @
       [\<lparr> type_notif = type_notif n, title = title n, message = message n,
          duration = duration n, id_notif = i, timestamp = now \<rparr>]"
  by (simp add: addNotification_def Let_def)

lemma taskStore_invalidateQueries: "taskStore (invalidateQueries k app) = taskStore app"
  by (simp add: invalidateQueries_def)

lemma invalidated_addNotification: "invalidated (addNotification i now n app) = invalidated app"
  by (simp add: addNotification_def Let_def)

lemma invalidated_invalidateQueries:
  "invalidated (invalidateQueries k app) = invalidated app @ [k]"
  by (simp add: invalidateQueries_def)

lemma uiStore_invalidateQueries: "uiStore (invalidateQueries k app) = uiStore app"
  by (simp add: invalidateQueries_def)

text \<open>The sort only permutes; the lookup map has exactly the ids of the snapshot.\<close>

lemma mset_insert_sorted: "mset (insert_sorted cmp x xs) = add_mset x (mset xs)"
  by (induction xs) auto

lemma mset_array_sort: "mset (array_sort cmp xs) = mset xs"
  by (induction xs) (auto simp: mset_insert_sorted)

lemma has_apiTaskMap: "has (apiTaskMap R) k \<longleftrightarrow> k \<in> task_id ` set R"
  by (auto simp: has_def apiTaskMap_def map_of_eq_None_iff image_iff)

lemma mset_mergedTasks:
  "mset (mergedTasks gt L (Some R)) =
     mset (filter (\<lambda>l. task_id l \<notin> task_id ` set R) L) + mset R"
  by (simp add: mergedTasks_def mset_array_sort has_apiTaskMap)

lemma set_mergedTasks:
  "set (mergedTasks gt L (Some R)) = {l \<in> set L. task_id l \<notin> task_id ` set R} \<union> set R"
proof -
  have "set (mergedTasks gt L (Some R)) = set_mset (mset (mergedTasks gt L (Some R)))"
    by simp
  also have "\<dots> = {l \<in> set L. task_id l \<notin> task_id ` set R} \<union> set R"
    unfolding mset_mergedTasks by auto
  finally show ?thesis .
qed

text \<open>Roundings: integers up to \<open>2 ^ 53\<close> are kept, and the order is kept.\<close>

lemma binary64_of_int: "\<bar>m\<bar> \<le> 2 ^ 53 \<Longrightarrow> binary64 (of_int m)"
  unfolding binary64_def by (rule exI [of _ m], rule exI [of _ 0]) simp

lemma rounding_of_int: "rounding fl \<Longrightarrow> \<bar>m\<bar> \<le> 2 ^ 53 \<Longrightarrow> fl (of_int m) = of_int m"
  by (simp add: rounding_def binary64_of_int)

lemma rounding_mono: "rounding fl \<Longrightarrow> x \<le> y \<Longrightarrow> fl x \<le> fl y"
  by (simp add: rounding_def)

text \<open>A double strictly between an integer \<open>h\<close> and \<open>h + 1 / 3600000\<close>.\<close>

lemma binary64_above:
  assumes "\<bar>h\<bar> < (2::int) ^ 31"
  shows "binary64 (of_int h + 1 / 2 ^ 22)"
proof -
  have "\<bar>h * 2 ^ 22 + 1\<bar> \<le> (2::int) ^ 53"
    using assms by simp
  moreover have "(of_int h + 1 / 2 ^ 22 :: rat) = of_int (h * 2 ^ 22 + 1) / 2 ^ 22"
    by (simp add: field_simps)
  ultimately show ?thesis
    unfolding binary64_def by (intro exI [of _ "h * 2 ^ 22 + 1"] exI [of _ 22]) simp
qed

lemma hoursDiff_le_iff:
  assumes fl: "rounding fl" and h: "\<bar>h\<bar> < (2::int) ^ 31" and d: "\<bar>T - c\<bar> < (2::int) ^ 53"
  shows "hoursDiff fl T c \<le> of_int h \<longleftrightarrow> T - c \<le> h * 3600000"
proof -
  have sub: "fl (of_int T - of_int c) = of_int (T - c)"
    using rounding_of_int [OF fl, of "T - c"] d by simp
  have hd: "hoursDiff fl T c = fl (of_int (T - c) / 3600000)"
    by (simp add: hoursDiff_def sub)
  have flh: "fl (of_int h) = of_int h"
    using rounding_of_int [OF fl, of h] h by simp
  show ?thesis
  proof
    assume le: "hoursDiff fl T c \<le> of_int h"
    show "T - c \<le> h * 3600000"
    proof (rule ccontr)
      assume "\<not> T - c \<le> h * 3600000"
      then have "h * 3600000 + 1 \<le> T - c"
        by simp
      then have "(of_int (h * 3600000 + 1) :: rat) \<le> of_int (T - c)"
        by (simp only: of_int_le_iff)
      then have "(of_int h :: rat) + 1 / 3600000 \<le> of_int (T - c) / 3600000"
        by (simp add: field_simps)
      moreover have "(1 / 2 ^ 22 :: rat) \<le> 1 / 3600000"
        by simp
      ultimately have "(of_int h :: rat) + 1 / 2 ^ 22 \<le> of_int (T - c) / 3600000"
        by linarith
      then have "fl (of_int h + 1 / 2 ^ 22) \<le> fl (of_int (T - c) / 3600000)"
        by (rule rounding_mono [OF fl])
      moreover have "fl (of_int h + 1 / 2 ^ 22) = of_int h + 1 / 2 ^ 22"
        using fl binary64_above [OF h] by (simp add: rounding_def)
      ultimately have "(of_int h :: rat) + 1 / 2 ^ 22 \<le> hoursDiff fl T c"
        by (simp add: hd)
      with le show False
        by simp
    qed
  next
    assume "T - c \<le> h * 3600000"
    then have "(of_int (T - c) :: rat) \<le> of_int (h * 3600000)"
      by (simp only: of_int_le_iff)
    then have "(of_int (T - c) :: rat) / 3600000 \<le> of_int h"
      by (simp add: field_simps)
    then have "fl (of_int (T - c) / 3600000) \<le> fl (of_int h)"
      by (rule rounding_mono [OF fl])
    then show "hoursDiff fl T c \<le> of_int h"
      by (simp add: hd flh)
  qed
qed

section \<open>Reconciliation patches and terminal statuses\<close>

text \<open>
  Claim C1 says that a reconciliation patch, the single-task poll result written with
  \<open>updateTask\<close>, never takes a task from completed, failed or cancelled back to pending
  or processing. The store has no such guard: a completed task polled as processing
  becomes processing.
\<close>

theorem reconciliation_regresses_terminal_status:
  "is_terminal (status (example_task ''A'' completed ''t5''))
   \<and> map status (tasks (useTaskWithEffects_effect ''A''
         (Some (example_task ''A'' processing ''t5''))
         (setTasks [example_task ''A'' completed ''t5''] initial_TaskState)))
      = [processing]"
  by (simp add: is_terminal_def example_task_def useTaskWithEffects_effect_def updateTask_def
      setCurrentTask_def setTasks_def initial_TaskState_def spread_def spread_key_def
      task_as_updates_def)

text \<open>
  Claim C1, amended: a reconciliation patch gives every task with the polled id the polled
  status, whatever its status was, and leaves the status of the other tasks; in general
  \<open>updateTask\<close> overwrites the status whenever the patch has the key \<open>status\<close>.
\<close>

theorem reconciliation_overwrites_status:
  "map status (tasks (useTaskWithEffects_effect taskId (Some d) state))
     = map (\<lambda>t. if task_id t = taskId then status d else status t) (tasks state)
   \<and> map status (tasks (updateTask taskId updates state))
     = map (\<lambda>t. if task_id t = taskId then spread_key (status t) (status_p updates)
                 else status t) (tasks state)"
  by (simp add: useTaskWithEffects_effect_def tasks_updateTask setCurrentTask_def
      status_spread spread_key_def task_as_updates_def)

theorem reconciliation_overwrites_status_witness:
  "map status (tasks (useTaskWithEffects_effect ''A''
         (Some (example_task ''A'' failed ''t5''))
         (setTasks [example_task ''B'' completed ''t8'', example_task ''A'' processing ''t5'']
            initial_TaskState)))
      = [completed, failed]"
  using reconciliation_overwrites_status [of "''A''" "example_task ''A'' failed ''t5''"
      "setTasks [example_task ''B'' completed ''t8'', example_task ''A'' processing ''t5'']
            initial_TaskState"]
  by (simp add: setTasks_def initial_TaskState_def example_task_def)

section \<open>The merge of local tasks and a snapshot\<close>

text \<open>
  Claim C2: for local tasks \<open>L\<close> and a snapshot \<open>R\<close>, each with unique task ids, the merged
  list has every task id at most once, contains every task of \<open>R\<close> and every task of
  \<open>L\<close> whose id is not in \<open>R\<close>, and a task in it whose id is in \<open>R\<close> is the task of
  \<open>R\<close>. As multisets, the merged list is the local-only tasks plus \<open>R\<close>.
\<close>

theorem mergedTasks_correct:
  assumes "distinct (map task_id L)" and "distinct (map task_id R)"
  shows "distinct (map task_id (mergedTasks getTime L (Some R)))
       \<and> set R \<subseteq> set (mergedTasks getTime L (Some R))
       \<and> (\<forall>l \<in> set L. task_id l \<notin> task_id ` set R \<longrightarrow> l \<in> set (mergedTasks getTime L (Some R)))
       \<and> (\<forall>t \<in> set (mergedTasks getTime L (Some R)). task_id t \<in> task_id ` set R \<longrightarrow> t \<in> set R)
       \<and> mset (mergedTasks getTime L (Some R))
           = mset (filter (\<lambda>l. task_id l \<notin> task_id ` set R) L) + mset R"
proof -
  let ?M = "mergedTasks getTime L (Some R)"
  let ?only = "filter (\<lambda>l. task_id l \<notin> task_id ` set R) L"
  have "mset (map task_id ?M) = mset (map task_id (?only @ R))"
    by (simp add: mset_mergedTasks)
  moreover have "distinct (map task_id (?only @ R))"
    using assms by (auto simp: distinct_map_filter)
  ultimately have "distinct (map task_id ?M)"
    by (metis mset_eq_imp_distinct_iff)
  then show ?thesis
    by (auto simp: set_mergedTasks mset_mergedTasks)
qed

theorem mergedTasks_correct_witness:
  "distinct (map task_id [example_task ''B'' pending ''t10'', example_task ''C'' pending ''t5''])
   \<and> distinct (map task_id [example_task ''C'' processing ''t5'', example_task ''D'' completed ''t8''])
   \<and> mergedTasks example_getTime
        [example_task ''B'' pending ''t10'', example_task ''C'' pending ''t5'']
        (Some [example_task ''C'' processing ''t5'', example_task ''D'' completed ''t8''])
      = [example_task ''B'' pending ''t10'', example_task ''D'' completed ''t8'',
         example_task ''C'' processing ''t5'']
   \<and> distinct (map task_id (mergedTasks example_getTime
        [example_task ''B'' pending ''t10'', example_task ''C'' pending ''t5'']
        (Some [example_task ''C'' processing ''t5'', example_task ''D'' completed ''t8''])))"
  using mergedTasks_correct [of
      "[example_task ''B'' pending ''t10'', example_task ''C'' pending ''t5'']"
      "[example_task ''C'' processing ''t5'', example_task ''D'' completed ''t8'']"
      example_getTime]
  by (simp add: example_task_def mergedTasks_def has_def apiTaskMap_def newest_first_def
      example_getTime_def)

section \<open>The polling policy\<close>

text \<open>
  Claim C3 says that every poller refetches after 2000 ms exactly when the snapshot has a
  pending or processing task. The poller of the recent uploads reads the state
  \<open>activeTasks\<close>, computed from the merged tasks: with a snapshot of one completed task and
  a pending task known only locally it refetches, where the list poller does not.
\<close>

theorem recent_uploads_poll_on_local_task:
  "map status [example_task ''C'' completed ''t5''] = [completed]
   \<and> useTasksWithEffects_refetchInterval (Some [example_task ''C'' completed ''t5'']) = NoRefetch
   \<and> useRecentUploads_refetchInterval (activeTasks (mergedTasks example_getTime
        [example_task ''B'' pending ''t10''] (Some [example_task ''C'' completed ''t5''])))
      = Every 2000"
  by (simp add: is_active_def example_task_def useRecentUploads_refetchInterval_def
      useTasksWithEffects_refetchInterval_def activeTasks_def mergedTasks_def has_def
      apiTaskMap_def newest_first_def example_getTime_def)

text \<open>
  Claim C3, amended: the list poller returns 2000 ms if and only if the snapshot has a
  pending or processing task, and no refetch otherwise, also while there is no snapshot;
  the single-task poller applies the same test to the status of the polled task; the
  poller of the recent uploads returns 2000 ms if and only if the merged view, the
  local-only tasks together with the snapshot, has a pending or processing task, and no
  refetch otherwise.
\<close>

theorem refetchInterval_policy:
  "useTasksWithEffects_refetchInterval (Some snapshot)
     = (if \<exists>t \<in> set snapshot. status t = pending \<or> status t = processing
        then Every 2000 else NoRefetch)
   \<and> useTasksWithEffects_refetchInterval None = NoRefetch
   \<and> useTaskWithEffects_refetchInterval (Some task)
     = (if status task = pending \<or> status task = processing then Every 2000 else NoRefetch)
   \<and> useTaskWithEffects_refetchInterval None = NoRefetch
   \<and> useRecentUploads_refetchInterval (activeTasks (mergedTasks getTime localTasks (Some snapshot)))
     = (if \<exists>t \<in> {l \<in> set localTasks. task_id l \<notin> task_id ` set snapshot} \<union> set snapshot.
              status t = pending \<or> status t = processing
        then Every 2000 else NoRefetch)"
proof -
  have "activeTasks ts \<noteq> [] \<longleftrightarrow> (\<exists>t \<in> set ts. status t = pending \<or> status t = processing)"
    for ts
    by (auto simp: activeTasks_def is_active_def filter_empty_conv)
  then have "useRecentUploads_refetchInterval (activeTasks ts)
      = (if \<exists>t \<in> set ts. status t = pending \<or> status t = processing
         then Every 2000 else NoRefetch)" for ts
    by (simp add: useRecentUploads_refetchInterval_def)
  then show ?thesis
    by (simp add: useTasksWithEffects_refetchInterval_def useTaskWithEffects_refetchInterval_def
        list_ex_iff is_active_def set_mergedTasks)
qed

theorem refetchInterval_policy_witness:
  "useTasksWithEffects_refetchInterval
      (Some [example_task ''C'' completed ''t5'', example_task ''B'' pending ''t10'']) = Every 2000
   \<and> useTasksWithEffects_refetchInterval (Some [example_task ''C'' completed ''t5'']) = NoRefetch
   \<and> useTaskWithEffects_refetchInterval (Some (example_task ''C'' failed ''t5'')) = NoRefetch
   \<and> useRecentUploads_refetchInterval (activeTasks (mergedTasks example_getTime
        [example_task ''C'' pending ''t5''] (Some [example_task ''C'' completed ''t5''])))
      = NoRefetch"
  using refetchInterval_policy [of "[example_task ''C'' completed ''t5'', example_task ''B'' pending ''t10'']"]
    refetchInterval_policy [of "[example_task ''C'' completed ''t5'']"
      "example_task ''C'' failed ''t5''" example_getTime "[example_task ''C'' pending ''t5'']"]
  by (simp add: example_task_def)

section \<open>Cancelling a task\<close>

text \<open>
  Claim C4 says that cancelling patches the task to cancelled before the request
  resolves, and that the cancelled status stays when the request fails. The hook patches
  in \<^verbatim>\<open>onSuccess\<close> only: a processing task is still processing while the request is
  pending and after it has failed.
\<close>

theorem cancel_failure_keeps_status:
  "map status (tasks (taskStore (useCancelTask_mutate ''A''
       (example_app [example_task ''A'' processing ''t5''])))) = [processing]
   \<and> map status (tasks (taskStore (useCancelTask_settled ''n1'' 7 ''A'' (Rejected example_error)
       (useCancelTask_mutate ''A'' (example_app [example_task ''A'' processing ''t5''])))))
      = [processing]"
  by (simp add: useCancelTask_mutate_def useCancelTask_settled_def useCancelTask_onError_def
      taskStore_addNotification example_app_def setTasks_def example_task_def)

text \<open>
  Claim C4, amended: calling cancel changes nothing before the request resolves; when the
  request fails, the task store is unchanged, one error notification is appended and no
  query is invalidated; when it succeeds, the store is patched with status cancelled for
  the given task id, one success notification is appended, and the single-task query of
  that id and the list queries are invalidated.
\<close>

theorem useCancelTask_patches_on_success:
  "useCancelTask_mutate taskId app = app
   \<and> taskStore (useCancelTask_settled i now taskId (Rejected e) app) = taskStore app
   \<and> notifications (uiStore (useCancelTask_settled i now taskId (Rejected e) app))
       = notifications (uiStore app) @
           [\<lparr> type_notif = error_type, title = ''Failed to cancel task'',
              message = failure_message e, duration = None, id_notif = i, timestamp = now \<rparr>]
   \<and> taskStore (useCancelTask_settled i now taskId (Fulfilled ()) app)
       = updateTask taskId (status_only cancelled) (taskStore app)
   \<and> map status (tasks (taskStore (useCancelTask_settled i now taskId (Fulfilled ()) app)))
       = map (\<lambda>t. if task_id t = taskId then cancelled else status t) (tasks (taskStore app))
   \<and> notifications (uiStore (useCancelTask_settled i now taskId (Fulfilled ()) app))
       = notifications (uiStore app) @
           [\<lparr> type_notif = success, title = ''Task cancelled'',
              message = Some (''Task '' @ taskId @ '' has been cancelled successfully.''),
              duration = None, id_notif = i, timestamp = now \<rparr>]
   \<and> invalidated (useCancelTask_settled i now taskId (Fulfilled ()) app)
       = invalidated app @ [[''tasks'', ''detail'', taskId], [''tasks'', ''list'']]
   \<and> invalidated (useCancelTask_settled i now taskId (Rejected e) app) = invalidated app"
proof -
  have ok: "taskStore (useCancelTask_settled i now taskId (Fulfilled ()) app)
      = updateTask taskId (status_only cancelled) (taskStore app)"
    by (simp add: useCancelTask_settled_def useCancelTask_onSuccess_def Let_def
        taskStore_addNotification taskStore_invalidateQueries)
  have st: "map status (tasks (updateTask taskId (status_only cancelled) (taskStore app)))
      = map (\<lambda>t. if task_id t = taskId then cancelled else status t) (tasks (taskStore app))"
    by (simp add: updateTask_def status_spread_status_only)
  have nt: "notifications (uiStore (useCancelTask_settled i now taskId (Fulfilled ()) app))
       = notifications (uiStore app) @
           [\<lparr> type_notif = success, title = ''Task cancelled'',
              message = Some (''Task '' @ taskId @ '' has been cancelled successfully.''),
              duration = None, id_notif = i, timestamp = now \<rparr>]"
    by (simp add: useCancelTask_settled_def useCancelTask_onSuccess_def Let_def
        notifications_addNotification uiStore_invalidateQueries)
  have iv: "invalidated (useCancelTask_settled i now taskId (Fulfilled ()) app)
       = invalidated app @ [[''tasks'', ''detail'', taskId], [''tasks'', ''list'']]"
    by (simp add: useCancelTask_settled_def useCancelTask_onSuccess_def Let_def
        invalidated_addNotification invalidated_invalidateQueries)
  have iv': "invalidated (useCancelTask_settled i now taskId (Rejected e) app) = invalidated app"
    by (simp add: useCancelTask_settled_def useCancelTask_onError_def
        invalidated_addNotification)
  from ok st nt iv iv' show ?thesis
    by (simp add: useCancelTask_mutate_def useCancelTask_settled_def useCancelTask_onError_def
        taskStore_addNotification notifications_addNotification)
qed

theorem useCancelTask_patches_on_success_witness:
  "map status (tasks (taskStore (useCancelTask_settled ''n1'' 7 ''A'' (Fulfilled ())
       (example_app [example_task ''A'' processing ''t5'', example_task ''B'' pending ''t8'']))))
     = [cancelled, pending]
   \<and> map title (notifications (uiStore (useCancelTask_settled ''n1'' 7 ''A'' (Fulfilled ())
       (example_app [example_task ''A'' processing ''t5'', example_task ''B'' pending ''t8'']))))
     = [''Task cancelled'']
   \<and> invalidated (useCancelTask_settled ''n1'' 7 ''A'' (Fulfilled ())
       (example_app [example_task ''A'' processing ''t5'', example_task ''B'' pending ''t8'']))
     = [[''tasks'', ''detail'', ''A''], [''tasks'', ''list'']]"
proof -
  let ?app = "example_app [example_task ''A'' processing ''t5'', example_task ''B'' pending ''t8'']"
  note inst = useCancelTask_patches_on_success [of "''A''" ?app "''n1''" 7 example_error]
  have "map status (tasks (taskStore (useCancelTask_settled ''n1'' 7 ''A'' (Fulfilled ()) ?app)))
      = map (\<lambda>t. if task_id t = ''A'' then cancelled else status t) (tasks (taskStore ?app))"
    using inst by blast
  also have "\<dots> = [cancelled, pending]"
    by (simp add: example_app_def setTasks_def example_task_def)
  finally have s: "map status
      (tasks (taskStore (useCancelTask_settled ''n1'' 7 ''A'' (Fulfilled ()) ?app)))
      = [cancelled, pending]" .
  have "notifications (uiStore (useCancelTask_settled ''n1'' 7 ''A'' (Fulfilled ()) ?app))
       = notifications (uiStore ?app) @
           [\<lparr> type_notif = success, title = ''Task cancelled'',
              message = Some (''Task '' @ ''A'' @ '' has been cancelled successfully.''),
              duration = None, id_notif = ''n1'', timestamp = 7 \<rparr>]"
    using inst by blast
  then have n: "map title
      (notifications (uiStore (useCancelTask_settled ''n1'' 7 ''A'' (Fulfilled ()) ?app)))
      = [''Task cancelled'']"
    by (simp add: example_app_def initial_App_def initial_UIState_def)
  have "invalidated (useCancelTask_settled ''n1'' 7 ''A'' (Fulfilled ()) ?app)
       = invalidated ?app @ [[''tasks'', ''detail'', ''A''], [''tasks'', ''list'']]"
    using inst by blast
  then have v: "invalidated (useCancelTask_settled ''n1'' 7 ''A'' (Fulfilled ()) ?app)
       = [[''tasks'', ''detail'', ''A''], [''tasks'', ''list'']]"
    by (simp add: example_app_def initial_App_def)
  from s n v show ?thesis
    by simp
qed

section \<open>Creating a task\<close>

text \<open>
  Claim C5 says that creating inserts a pending task before the upload request resolves.
  The hook inserts in \<^verbatim>\<open>onSuccess\<close>: the store is empty after \<^verbatim>\<open>onMutate\<close> and after a
  failed upload, and the inserted task has the status of the response.
\<close>

theorem upload_inserts_after_response:
  "tasks (taskStore (useUploadFile_onMutate ''n1'' 7 initial_App)) = []
   \<and> tasks (taskStore (useUploadFile_settled ''n2'' 8 ''t8'' (Rejected example_error)
        (useUploadFile_onMutate ''n1'' 7 initial_App))) = []
   \<and> map status (tasks (taskStore (useUploadFile_settled ''n2'' 8 ''t8'' (Fulfilled example_upload)
        (useUploadFile_onMutate ''n1'' 7 initial_App)))) = [processing]"
  by (simp add: useUploadFile_onMutate_def useUploadFile_settled_def useUploadFile_onError_def
      useUploadFile_onSuccess_def useUploadFile_onSettled_def Let_def
      taskStore_addNotification taskStore_invalidateQueries initial_App_def
      initial_TaskState_def example_upload_def addTask_def newTask_def as_any_def)

text \<open>
  Claim C5, amended: creating inserts no task before the upload request resolves and none
  when it fails; when it succeeds with a response that has a non-empty task id, the task
  built from the response is inserted at the front: id 0, progress 0, the task id, status
  and file size of the response, the file name of the response or \<open>Unknown\<close>, the creation
  date of the response or the current time.
\<close>

theorem useUploadFile_inserts_on_success:
  assumes "upload_task_id data = Some tid" and "tid \<noteq> []"
  shows "taskStore (useUploadFile_onMutate i now app) = taskStore app
       \<and> taskStore (useUploadFile_settled j now' nowISO (Rejected e) app) = taskStore app
       \<and> tasks (taskStore (useUploadFile_settled j now' nowISO (Fulfilled data) app))
           = newTask nowISO tid data # tasks (taskStore app)
       \<and> id_task (newTask nowISO tid data) = 0
       \<and> task_id (newTask nowISO tid data) = tid
       \<and> status (newTask nowISO tid data) = as_any (upload_status data)
       \<and> progress (newTask nowISO tid data) = 0
       \<and> file_size (newTask nowISO tid data) = upload_file_size data
       \<and> original_filename (newTask nowISO tid data)
           = or_default (upload_original_filename data) ''Unknown''
       \<and> created_at (newTask nowISO tid data) = or_default (upload_created_at data) nowISO"
proof -
  have "taskStore (useUploadFile_onMutate i now app) = taskStore app"
    by (simp add: useUploadFile_onMutate_def Let_def taskStore_addNotification)
  moreover have "taskStore (useUploadFile_settled j now' nowISO (Rejected e) app) = taskStore app"
    by (simp add: useUploadFile_settled_def useUploadFile_onSettled_def
        useUploadFile_onError_def taskStore_addNotification)
  moreover have "tasks (taskStore (useUploadFile_settled j now' nowISO (Fulfilled data) app))
           = newTask nowISO tid data # tasks (taskStore app)"
    using assms
    by (simp add: useUploadFile_settled_def useUploadFile_onSettled_def
        useUploadFile_onSuccess_def Let_def taskStore_addNotification
        taskStore_invalidateQueries addTask_def)
  ultimately show ?thesis
    by (simp add: newTask_def)
qed

theorem useUploadFile_inserts_on_success_witness:
  "upload_task_id example_upload = Some ''A'' \<and> ''A'' \<noteq> []
   \<and> tasks (taskStore (useUploadFile_settled ''n2'' 8 ''t8'' (Fulfilled example_upload)
        (useUploadFile_onMutate ''n1'' 7 initial_App)))
      = [example_task ''A'' processing ''t5'']"
proof -
  have h: "upload_task_id example_upload = Some ''A''"
    by (simp add: example_upload_def)
  have n: "''A'' \<noteq> []"
    by simp
  have m: "tasks (taskStore (useUploadFile_onMutate ''n1'' 7 initial_App)) = []"
    using useUploadFile_inserts_on_success [OF h n, of "''n1''" 7 initial_App]
    by (simp add: initial_App_def initial_TaskState_def)
  have "newTask ''t8'' ''A'' example_upload = example_task ''A'' processing ''t5''"
    by (simp add: newTask_def example_upload_def example_task_def as_any_def or_default_def)
  with h n m show ?thesis
    using useUploadFile_inserts_on_success [OF h n,
        where app = "useUploadFile_onMutate ''n1'' 7 initial_App" and j = "''n2''"
          and now' = 8 and nowISO = "''t8''"]
    by simp
qed

section \<open>Adding a task\<close>

text \<open>
  Claim C6 says that adding a task whose id is already in the list merges it into the
  existing entry and never leaves two entries with one id. \<open>addTask\<close> prepends without
  looking at the list: the id is then twice in the list, the old entry untouched.
\<close>

theorem addTask_duplicates_existing_id:
  "map task_id (tasks (addTask (example_task ''A'' processing ''t5'')
       (setTasks [example_task ''A'' pending ''t5''] initial_TaskState))) = [''A'', ''A'']
   \<and> map status (tasks (addTask (example_task ''A'' processing ''t5'')
       (setTasks [example_task ''A'' pending ''t5''] initial_TaskState))) = [processing, pending]"
  by (simp add: addTask_def setTasks_def initial_TaskState_def example_task_def)

text \<open>
  Claim C6, amended: \<open>addTask\<close> always inserts the task at the front and leaves the existing
  entries and the selected task as they are; the task ids of the list are unique afterwards
  if and only if they were unique before and no existing entry has the id of the new task.
\<close>

theorem addTask_prepends:
  "tasks (addTask t state) = t # tasks state
   \<and> currentTask (addTask t state) = currentTask state
   \<and> (distinct (map task_id (tasks (addTask t state)))
        \<longleftrightarrow> task_id t \<notin> task_id ` set (tasks state) \<and> distinct (map task_id (tasks state)))"
  by (auto simp: addTask_def)

theorem addTask_prepends_witness:
  "tasks (addTask (example_task ''B'' pending ''t8'')
       (setTasks [example_task ''A'' pending ''t5''] initial_TaskState))
     = [example_task ''B'' pending ''t8'', example_task ''A'' pending ''t5'']
   \<and> distinct (map task_id (tasks (addTask (example_task ''B'' pending ''t8'')
       (setTasks [example_task ''A'' pending ''t5''] initial_TaskState))))"
  using addTask_prepends [of "example_task ''B'' pending ''t8''"
      "setTasks [example_task ''A'' pending ''t5''] initial_TaskState"]
  by (simp add: setTasks_def initial_TaskState_def example_task_def)

section \<open>The time window\<close>

text \<open>
  Claim C7: at the time \<open>T\<close> and for a window of \<open>h\<close> hours, a task whose creation date
  parses to \<open>c\<close> milliseconds is kept if and only if \<open>T - c\<close> is at most
  \<open>h * 3600000\<close>; a task created exactly \<open>h\<close> hours before now is kept, a task created
  one millisecond earlier is not. This holds for every rounding of the double arithmetic,
  for a whole number of hours of magnitude below \<open>2 ^ 31\<close> and times less than \<open>2 ^ 53\<close>
  milliseconds apart, where the difference is exact and a double lies between \<open>h\<close>
  and the next quotient. A task whose creation date does not parse is never kept.
\<close>

theorem recentTasks_window:
  assumes "rounding fl"
    and "getTime (created_at task) = Some c"
    and "\<bar>h\<bar> < 2 ^ 31"
    and "\<bar>T - c\<bar> < 2 ^ 53"
  shows "(is_recent fl getTime T (of_int h) task \<longleftrightarrow> T - c \<le> h * 3600000)
       \<and> (task \<in> set (recentTasks fl getTime T (of_int h) merged)
            \<longleftrightarrow> task \<in> set merged \<and> T - c \<le> h * 3600000)
       \<and> is_recent fl getTime (c + h * 3600000) (of_int h) task
       \<and> \<not> is_recent fl getTime (c + h * 3600000 + 1) (of_int h) task
       \<and> (getTime (created_at other) = None \<longrightarrow>
            \<not> is_recent fl getTime T hours other
            \<and> other \<notin> set (recentTasks fl getTime T hours merged))"
proof -
  have iff: "is_recent fl getTime T' (of_int h) task \<longleftrightarrow> T' - c \<le> h * 3600000"
    if "\<bar>T' - c\<bar> < 2 ^ 53" for T'
    using assms(2) hoursDiff_le_iff [OF assms(1) assms(3) that]
    by (simp add: is_recent_def)
  have b0: "\<bar>(c + h * 3600000) - c\<bar> < (2::int) ^ 53"
    using assms(3) by simp
  have b1: "\<bar>(c + h * 3600000 + 1) - c\<bar> < (2::int) ^ 53"
    using assms(3) by simp
  have "is_recent fl getTime (c + h * 3600000) (of_int h) task"
    using iff [OF b0] by simp
  moreover have "\<not> is_recent fl getTime (c + h * 3600000 + 1) (of_int h) task"
    using iff [OF b1] by simp
  moreover have "\<not> is_recent fl getTime T hours other"
    if "getTime (created_at other) = None"
    using that by (simp add: is_recent_def)
  ultimately show ?thesis
    using iff [OF assms(4)] by (auto simp: recentTasks_def)
qed

theorem recentTasks_window_witness:
  "rounding (\<lambda>x. x)
   \<and> example_getTime (created_at (example_task ''A'' pending ''t5'')) = Some 5
   \<and> \<bar>24\<bar> < (2::int) ^ 31 \<and> \<bar>86400005 - 5\<bar> < (2::int) ^ 53
   \<and> example_getTime (created_at (example_task ''X'' pending ''soon'')) = None
   \<and> recentTasks (\<lambda>x. x) example_getTime 86400005 24
        [example_task ''A'' pending ''t5'', example_task ''X'' pending ''soon'']
       = [example_task ''A'' pending ''t5'']
   \<and> recentTasks (\<lambda>x. x) example_getTime 86400006 24
        [example_task ''A'' pending ''t5'', example_task ''X'' pending ''soon''] = []"
proof -
  let ?A = "example_task ''A'' pending ''t5''"
  let ?X = "example_task ''X'' pending ''soon''"
  have r: "rounding (\<lambda>x. x)"
    by (simp add: rounding_def)
  have g: "example_getTime (created_at ?A) = Some 5"
    by (simp add: example_getTime_def example_task_def)
  have n: "example_getTime (created_at ?X) = None"
    by (simp add: example_getTime_def example_task_def)
  have h: "\<bar>24\<bar> < (2::int) ^ 31"
    by simp
  have d: "\<bar>86400005 - 5\<bar> < (2::int) ^ 53" and d': "\<bar>86400006 - 5\<bar> < (2::int) ^ 53"
    by simp_all
  have in_window: "is_recent (\<lambda>x. x) example_getTime 86400005 24 ?A"
    and X_out: "\<not> is_recent (\<lambda>x. x) example_getTime 86400005 24 ?X"
    using recentTasks_window [where fl = "\<lambda>x. x" and getTime = example_getTime
        and task = ?A and c = 5 and h = 24 and T = 86400005 and other = ?X and hours = 24,
        OF r g h d] n
    by simp_all
  have out_window: "\<not> is_recent (\<lambda>x. x) example_getTime 86400006 24 ?A"
    and X_out': "\<not> is_recent (\<lambda>x. x) example_getTime 86400006 24 ?X"
    using recentTasks_window [where fl = "\<lambda>x. x" and getTime = example_getTime
        and task = ?A and c = 5 and h = 24 and T = 86400006 and other = ?X and hours = 24,
        OF r g h d'] n
    by simp_all
  show ?thesis
    using r g n in_window X_out out_window X_out' by (simp add: recentTasks_def)
qed

section \<open>Patching a task\<close>

text \<open>
  Claim C8: a patch for a task id that no task of the list has is a no-op on the list.
  There is no failing branch; the list of tasks, hence its length, is unchanged, the id
  is still unknown, and the loading flag and the error are unchanged. The selected task
  is the only other field written: it is patched if it has the given id and unchanged
  otherwise, so that the whole state is unchanged when the selected task does not have
  the given id.
\<close>

theorem updateTask_unknown_id:
  assumes "taskId \<notin> task_id ` set (tasks state)"
  shows "tasks (updateTask taskId updates state) = tasks state
       \<and> length (tasks (updateTask taskId updates state)) = length (tasks state)
       \<and> getTaskById taskId (updateTask taskId updates state) = None
       \<and> isLoading (updateTask taskId updates state) = isLoading state
       \<and> error (updateTask taskId updates state) = error state
       \<and> currentTask (updateTask taskId updates state) =
           (case currentTask state of
              None \<Rightarrow> None
            | Some c \<Rightarrow> if task_id c = taskId then Some (spread c updates) else Some c)
       \<and> ((case currentTask state of None \<Rightarrow> True | Some c \<Rightarrow> task_id c \<noteq> taskId)
            \<longrightarrow> updateTask taskId updates state = state)"
proof -
  have same: "map (\<lambda>t. if task_id t = taskId then spread t updates else t) (tasks state)
                = tasks state"
    using assms by (intro map_idI) auto
  then have t: "tasks (updateTask taskId updates state) = tasks state"
    by (simp add: tasks_updateTask)
  have f: "find (\<lambda>task. task_id task = taskId) (tasks state) = None"
    using assms by (auto simp: find_None_iff)
  have c: "currentTask (updateTask taskId updates state) =
           (case currentTask state of
              None \<Rightarrow> None
            | Some c \<Rightarrow> if task_id c = taskId then Some (spread c updates) else Some c)"
    by (simp add: updateTask_def)
  have "updateTask taskId updates state = state"
    if "case currentTask state of None \<Rightarrow> True | Some c \<Rightarrow> task_id c \<noteq> taskId"
  proof -
    have "currentTask (updateTask taskId updates state) = currentTask state"
      using that c by (simp split: option.splits)
    moreover have "updateTask taskId updates state
        = state \<lparr> tasks := tasks (updateTask taskId updates state),
                  currentTask := currentTask (updateTask taskId updates state) \<rparr>"
      by (simp add: updateTask_def)
    ultimately show ?thesis
      using t by simp
  qed
  with t f c show ?thesis
    by (simp add: getTaskById_def) (simp add: updateTask_def)
qed

theorem updateTask_unknown_id_witness:
  "''Z'' \<notin> task_id ` set [example_task ''A'' pending ''t5'']
   \<and> updateTask ''Z'' (status_only cancelled)
        (setCurrentTask (Some (example_task ''A'' pending ''t5''))
           (setTasks [example_task ''A'' pending ''t5''] initial_TaskState))
      = setCurrentTask (Some (example_task ''A'' pending ''t5''))
           (setTasks [example_task ''A'' pending ''t5''] initial_TaskState)
   \<and> tasks (updateTask ''Z'' (status_only cancelled)
        (setCurrentTask (Some (example_task ''Z'' pending ''t8''))
           (setTasks [example_task ''A'' pending ''t5''] initial_TaskState)))
      = [example_task ''A'' pending ''t5'']
   \<and> map_option status (currentTask (updateTask ''Z'' (status_only cancelled)
        (setCurrentTask (Some (example_task ''Z'' pending ''t8''))
           (setTasks [example_task ''A'' pending ''t5''] initial_TaskState))))
      = Some cancelled"
proof -
  let ?A = "example_task ''A'' pending ''t5''"
  let ?s1 = "setCurrentTask (Some ?A) (setTasks [?A] initial_TaskState)"
  let ?s2 = "setCurrentTask (Some (example_task ''Z'' pending ''t8''))
               (setTasks [?A] initial_TaskState)"
  have a: "''Z'' \<notin> task_id ` set [?A]"
    by (simp add: example_task_def)
  have a1: "''Z'' \<notin> task_id ` set (tasks ?s1)" and a2: "''Z'' \<notin> task_id ` set (tasks ?s2)"
    by (simp_all add: setCurrentTask_def setTasks_def initial_TaskState_def example_task_def)
  have "updateTask ''Z'' (status_only cancelled) ?s1 = ?s1"
    using updateTask_unknown_id [OF a1, of "status_only cancelled"]
    by (simp add: setCurrentTask_def setTasks_def initial_TaskState_def example_task_def)
  moreover have "tasks (updateTask ''Z'' (status_only cancelled) ?s2) = [?A]"
    using updateTask_unknown_id [OF a2, of "status_only cancelled"]
    by (simp add: setCurrentTask_def setTasks_def initial_TaskState_def)
  moreover have "map_option status (currentTask (updateTask ''Z'' (status_only cancelled) ?s2))
      = Some cancelled"
    using updateTask_unknown_id [OF a2, of "status_only cancelled"]
    by (simp add: setCurrentTask_def setTasks_def initial_TaskState_def example_task_def
        status_spread_status_only)
  ultimately show ?thesis
    using a by simp
qed

text \<open>
  Claim C10: for any task id and patch, \<open>updateTask\<close> keeps the number of tasks; the task
  at each position is the old task at that position, patched if it has the given id and
  unchanged otherwise; the selected task is patched if it has the given id and unchanged
  otherwise; the loading flag and the error are unchanged.
\<close>

theorem updateTask_frame:
  "length (tasks (updateTask taskId updates state)) = length (tasks state)
   \<and> (\<forall>i < length (tasks state).
         tasks (updateTask taskId updates state) ! i =
           (if task_id (tasks state ! i) = taskId then spread (tasks state ! i) updates
            else tasks state ! i))
   \<and> currentTask (updateTask taskId updates state) =
        (case currentTask state of
           None \<Rightarrow> None
         | Some c \<Rightarrow> if task_id c = taskId then Some (spread c updates) else Some c)
   \<and> isLoading (updateTask taskId updates state) = isLoading state
   \<and> error (updateTask taskId updates state) = error state"
  by (simp add: updateTask_def)

theorem updateTask_frame_witness:
  "(1::nat) < length [example_task ''A'' pending ''t5'', example_task ''B'' processing ''t8'']
   \<and> tasks (updateTask ''A'' (status_only cancelled)
        (setTasks [example_task ''A'' pending ''t5'', example_task ''B'' processing ''t8'']
           initial_TaskState)) ! 1
      = example_task ''B'' processing ''t8''"
  using updateTask_frame [of "''A''" "status_only cancelled"
      "setTasks [example_task ''A'' pending ''t5'', example_task ''B'' processing ''t8'']
         initial_TaskState"]
  by (simp add: setTasks_def initial_TaskState_def example_task_def)

section \<open>Removing a notification\<close>

text \<open>
  Claim C9: removing a notification id that is not in the queue leaves the state as it is;
  removing an id twice is removing it once; every notification with another id stays, and
  the notifications with another id are the same list before and after; the scheduled
  removal, firing after the notification was removed by hand, changes nothing.
\<close>

theorem removeNotification_idempotent:
  "(i \<notin> id_notif ` set (notifications state) \<longrightarrow> removeNotification i state = state)
   \<and> removeNotification i (removeNotification i state) = removeNotification i state
   \<and> (\<forall>n \<in> set (notifications state).
         id_notif n \<noteq> i \<longrightarrow> n \<in> set (notifications (removeNotification i state)))
   \<and> filter (\<lambda>n. id_notif n \<noteq> i) (notifications (removeNotification i state))
       = filter (\<lambda>n. id_notif n \<noteq> i) (notifications state)
   \<and> timeout_fires i (app \<lparr> uiStore := removeNotification i (uiStore app) \<rparr>)
       = app \<lparr> uiStore := removeNotification i (uiStore app) \<rparr>"
proof -
  have "filter (\<lambda>n. id_notif n \<noteq> i) (notifications state) = notifications state"
    if "i \<notin> id_notif ` set (notifications state)"
    using that by (intro filter_True) auto
  then show ?thesis
    by (auto simp: removeNotification_def timeout_fires_def)
qed

theorem removeNotification_idempotent_witness:
  "''z'' \<notin> id_notif ` set [example_notification ''a'', example_notification ''b'']
   \<and> removeNotification ''z''
        (initial_UIState \<lparr> notifications := [example_notification ''a'', example_notification ''b''] \<rparr>)
      = initial_UIState \<lparr> notifications := [example_notification ''a'', example_notification ''b''] \<rparr>
   \<and> example_notification ''b'' \<in> set (notifications (removeNotification ''a''
        (initial_UIState \<lparr> notifications := [example_notification ''a'', example_notification ''b''] \<rparr>)))"
  using removeNotification_idempotent [of "''z''"
      "initial_UIState \<lparr> notifications := [example_notification ''a'', example_notification ''b''] \<rparr>"]
    removeNotification_idempotent [of "''a''"
      "initial_UIState \<lparr> notifications := [example_notification ''a'', example_notification ''b''] \<rparr>"]
  by (simp add: example_notification_def)

end
